theory Spec2Isabelle
  imports Complex_Main "HOL-Library.AList" "HOL-Library.Char_ord" "HOL-Library.List_Lexorder"
begin

section \<open>Common data: time, JSON values, digests and signatures\<close>

text \<open>
  A naive UTC \<^verbatim>\<open>datetime\<close> is a point on the time line, counted in seconds; the code
  only compares datetimes and adds \<^verbatim>\<open>timedelta(hours=h)\<close> to them. Every operation
  receives the reading of \<^verbatim>\<open>datetime.utcnow()\<close> as its argument \<open>now\<close> (one reading
  per call), and the tokens drawn from \<^verbatim>\<open>secrets\<close> or \<^verbatim>\<open>uuid\<close> as arguments too.
\<close>

type_synonym datetime = int

definition timedelta_hours :: "int \<Rightarrow> int" where
  "timedelta_hours h = h * 3600"

text \<open>
  \<^verbatim>\<open>Dict[str, Any]\<close> values are JSON trees; a dictionary keeps its insertion order, so an
  object is an association list. Two leaves stand for strings whose text the code
  obtains from a library call: \<open>JDate t\<close> is \<^verbatim>\<open>t.isoformat() + "Z"\<close>, \<open>JHex g\<close> is
  \<^verbatim>\<open>signature.hex()\<close>. SHA-256 and RSA-PSS are the ideal ones: a digest determines the
  bytes it was computed from, and a signature records the key, the signed digest and the
  random salt of the padding.
\<close>

datatype json = JNull | JBool bool | JNum real | JStr string | JDate datetime
  | JHex signature | JArr "json list" | JObj "(string \<times> json) list"
and signature = PSS nat digest nat
and digest = SHA256 bytes
and bytes = Utf8 string | Utf8_json json

text \<open>\<^verbatim>\<open>json.dumps(d, sort_keys=True, separators=(',', ':'))\<close>: the text is determined by the
  tree with the keys of every object sorted, which stands for it.\<close>

primrec sort_keys :: "json \<Rightarrow> json" where
  "sort_keys JNull = JNull"
| "sort_keys (JBool b) = JBool b"
| "sort_keys (JNum r) = JNum r"
| "sort_keys (JStr s) = JStr s"
| "sort_keys (JDate t) = JDate t"
| "sort_keys (JHex g) = JHex g"
| "sort_keys (JArr xs) = JArr (map sort_keys xs)"
| "sort_keys (JObj kvs) = JObj (sort_key fst (map (map_prod id sort_keys) kvs))"

definition json_dumps_sorted :: "(string \<times> json) list \<Rightarrow> bytes" where
  "json_dumps_sorted d = Utf8_json (sort_keys (JObj d))"

text \<open>The key pair: \<open>private_key.public_key()\<close> of key \<open>k\<close> is \<open>k\<close> itself; \<open>rsa_verify\<close>
  is \<^verbatim>\<open>public_key.verify\<close>, which raises \<^verbatim>\<open>InvalidSignature\<close> where this is False.\<close>

definition rsa_sign :: "nat \<Rightarrow> digest \<Rightarrow> nat \<Rightarrow> signature" where
  "rsa_sign private_key message_hash salt = PSS private_key message_hash salt"

fun rsa_verify :: "nat \<Rightarrow> signature \<Rightarrow> digest \<Rightarrow> bool" where
  "rsa_verify public_key (PSS k d salt) message_hash = (k = public_key \<and> d = message_hash)"

text \<open>\<^verbatim>\<open>int(x)\<close> of a float truncates towards zero; \<^verbatim>\<open>str.upper()\<close> on ASCII text.\<close>

definition py_int :: "real \<Rightarrow> int" where
  "py_int x = (if 0 \<le> x then \<lfloor>x\<rfloor> else \<lceil>x\<rceil>)"

definition upper_char :: "char \<Rightarrow> char" where
  "upper_char c = (let n = (of_char c :: nat) in if 97 \<le> n \<and> n \<le> 122 then char_of (n - 32) else c)"

definition upper :: "string \<Rightarrow> string" where
  "upper s = map upper_char s"


section \<open>escrow_payment.py: the escrow engine\<close>

datatype EscrowStatus = CREATED | LOCKED | FULFILLED | EXPIRED | CANCELLED


text \<open>\<open>preimage_hash\<close> holds \<^verbatim>\<open>hashlib.sha256(preimage.encode()).hexdigest().upper()\<close>.\<close>

record DataDeliveryCondition =
  fhir_bundle_hash :: string
  preimage :: string
  preimage_hash :: digest
  delivery_deadline :: datetime

record EscrowContract =
  escrow_id :: string
  payer :: string
  payee :: string
  amount :: real
  consent_id :: string
  data_condition :: DataDeliveryCondition
  created_at :: datetime
  expires_at :: datetime
  status :: EscrowStatus
  xrpl_sequence :: "int option"
  fulfillment_tx :: "string option"

record escrow_log_entry =
  log_timestamp :: datetime
  log_action :: string
  log_escrowId :: string
  log_payer :: string
  log_payee :: string
  log_amount :: real

text \<open>The manager's mutable fields (the two network addresses derived from \<open>testnet\<close> are
  constants no operation reads). \<open>active_escrows\<close> is a dict: lookup is \<open>map_of\<close>,
  assignment is \<open>AList.update\<close> (a present key keeps its place, a new key goes last).\<close>

record XRPLEscrowManager =
  testnet :: bool
  active_escrows :: "(string \<times> EscrowContract) list"
  escrow_history :: "escrow_log_entry list"

text \<open>The transaction envelopes, one constructor for each \<^verbatim>\<open>TransactionType\<close>, with the
  keys of the dict literal as selectors. \<open>Amount\<close> is the number of drops that the code
  prints with \<^verbatim>\<open>str\<close>; a memo holds its type and its data before \<^verbatim>\<open>_hex_encode\<close> and
  \<^verbatim>\<open>json.dumps\<close> turn them into text.\<close>

datatype memo = Memo (MemoType: string) (MemoData: json)

datatype xrpl_transaction =
    EscrowCreate (Account: string) (Destination: string) (Amount: int) (FinishAfter: int)
      (Condition: digest) (Memos: "memo list")
  | EscrowFinish (Account: string) (Owner: string) (OfferSequence: "int option")
      (Fulfillment: string) (Memos: "memo list")
  | EscrowCancel (Account: string) (Owner: string) (OfferSequence: "int option")
      (Memos: "memo list")

definition log_escrow_action ::
  "XRPLEscrowManager \<Rightarrow> datetime \<Rightarrow> string \<Rightarrow> string \<Rightarrow> string \<Rightarrow> string \<Rightarrow> real
    \<Rightarrow> XRPLEscrowManager" where
  "log_escrow_action m now action eid payer_a payee_a amt =
     m\<lparr>escrow_history := escrow_history m @
        [\<lparr>log_timestamp = now, log_action = action, log_escrowId = eid,
          log_payer = payer_a, log_payee = payee_a, log_amount = amt\<rparr>]\<rparr>"

text \<open>\<open>get_xrpl_memo_data\<close>: \<open>Amount\<close> is \<^verbatim>\<open>str(escrow.amount)\<close>, kept as the number.\<close>

definition get_xrpl_memo_data :: "XRPLEscrowManager \<Rightarrow> string \<Rightarrow> json" where
  "get_xrpl_memo_data m eid =
     (case map_of (active_escrows m) eid of
        None \<Rightarrow> JObj []
      | Some escrow \<Rightarrow> JObj
          [(''EscrowID'', JStr (escrow_id escrow)),
           (''ConsentID'', JStr (consent_id escrow)),
           (''DataHash'', JStr (take 32 (fhir_bundle_hash (data_condition escrow)))),
           (''Amount'', JNum (amount escrow)),
           (''Purpose'', JStr ''HealthDataPayment'')])"

definition ripple_epoch_offset :: int where
  "ripple_epoch_offset = 946684800"

definition build_escrow_create_transaction ::
  "XRPLEscrowManager \<Rightarrow> EscrowContract \<Rightarrow> xrpl_transaction" where
  "build_escrow_create_transaction m escrow =
     EscrowCreate (payer escrow) (payee escrow)
       (py_int (amount escrow * 1000000))
       (expires_at escrow - ripple_epoch_offset)
       (preimage_hash (data_condition escrow))
       [Memo ''SportiQueEscrow'' (get_xrpl_memo_data m (escrow_id escrow))]"

definition build_escrow_finish_transaction ::
  "EscrowContract \<Rightarrow> string \<Rightarrow> datetime \<Rightarrow> xrpl_transaction" where
  "build_escrow_finish_transaction escrow pre now =
     EscrowFinish (payee escrow) (payer escrow) (xrpl_sequence escrow) (upper pre)
       [Memo ''SportiQueComplete''
          (JObj [(''EscrowID'', JStr (escrow_id escrow)),
                 (''ConsentID'', JStr (consent_id escrow)),
                 (''CompletedAt'', JDate now)])]"

definition build_escrow_cancel_transaction ::
  "EscrowContract \<Rightarrow> datetime \<Rightarrow> xrpl_transaction" where
  "build_escrow_cancel_transaction escrow now =
     EscrowCancel (payer escrow) (payer escrow) (xrpl_sequence escrow)
       [Memo ''SportiQueCancel''
          (JObj [(''EscrowID'', JStr (escrow_id escrow)),
                 (''CancelledAt'', JDate now),
                 (''Reason'', JStr ''Expired'')])]"

text \<open>\<open>create_escrow_offer\<close>; \<open>token\<close> is the result of \<^verbatim>\<open>_generate_id()\<close> and \<open>secret\<close>
  that of \<^verbatim>\<open>_generate_preimage()\<close>. The envelope is built before the contract is stored,
  as in the source.\<close>

definition create_escrow_offer ::
  "XRPLEscrowManager \<Rightarrow> string \<Rightarrow> string \<Rightarrow> real \<Rightarrow> string \<Rightarrow> string \<Rightarrow> int
    \<Rightarrow> string \<Rightarrow> string \<Rightarrow> datetime
    \<Rightarrow> XRPLEscrowManager \<times> EscrowContract \<times> xrpl_transaction" where
  "create_escrow_offer m payer_address payee_address amt cid bundle_hash delivery_hours
      token secret now =
     (let eid = ''escrow_'' @ token;
          deadline = now + timedelta_hours delivery_hours;
          cond = \<lparr>fhir_bundle_hash = bundle_hash, preimage = secret,
                  preimage_hash = SHA256 (Utf8 secret), delivery_deadline = deadline\<rparr>;
          escrow_contract = \<lparr>escrow_id = eid, payer = payer_address, payee = payee_address,
                  amount = amt, consent_id = cid, data_condition = cond, created_at = now,
                  expires_at = deadline + timedelta_hours 24, status = CREATED,
                  xrpl_sequence = None, fulfillment_tx = None\<rparr>;
          xrpl_tx = build_escrow_create_transaction m escrow_contract;
          m1 = m\<lparr>active_escrows := AList.update eid escrow_contract (active_escrows m)\<rparr>
      in (log_escrow_action m1 now ''CREATED'' eid payer_address payee_address amt,
          escrow_contract, xrpl_tx))"

definition lock_escrow_funds ::
  "XRPLEscrowManager \<Rightarrow> string \<Rightarrow> int \<Rightarrow> datetime \<Rightarrow> XRPLEscrowManager \<times> bool" where
  "lock_escrow_funds m eid seq now =
     (case map_of (active_escrows m) eid of
        None \<Rightarrow> (m, False)
      | Some escrow \<Rightarrow>
          (let escrow1 = escrow\<lparr>status := LOCKED, xrpl_sequence := Some seq\<rparr>;
               m1 = m\<lparr>active_escrows := AList.update eid escrow1 (active_escrows m)\<rparr>
           in (log_escrow_action m1 now ''LOCKED'' eid (payer escrow1) (payee escrow1)
                 (amount escrow1), True)))"

definition fulfill_escrow ::
  "XRPLEscrowManager \<Rightarrow> string \<Rightarrow> string \<Rightarrow> string \<Rightarrow> datetime
    \<Rightarrow> XRPLEscrowManager \<times> bool \<times> xrpl_transaction option" where
  "fulfill_escrow m eid bundle_hash pre now =
     (case map_of (active_escrows m) eid of
        None \<Rightarrow> (m, False, None)
      | Some escrow \<Rightarrow>
          if status escrow \<noteq> LOCKED then (m, False, None)
          else if now > expires_at escrow then
            (m\<lparr>active_escrows :=
                 AList.update eid (escrow\<lparr>status := EXPIRED\<rparr>) (active_escrows m)\<rparr>,
             False, None)
          else if bundle_hash \<noteq> fhir_bundle_hash (data_condition escrow) then (m, False, None)
          else if SHA256 (Utf8 pre) \<noteq> preimage_hash (data_condition escrow) then
            (m, False, None)
          else
            (let finish_transaction = build_escrow_finish_transaction escrow pre now;
                 escrow1 = escrow\<lparr>status := FULFILLED\<rparr>;
                 m1 = m\<lparr>active_escrows := AList.update eid escrow1 (active_escrows m)\<rparr>
             in (log_escrow_action m1 now ''FULFILLED'' eid (payer escrow1) (payee escrow1)
                   (amount escrow1), True, Some finish_transaction)))"

definition cancel_escrow ::
  "XRPLEscrowManager \<Rightarrow> string \<Rightarrow> datetime
    \<Rightarrow> XRPLEscrowManager \<times> bool \<times> xrpl_transaction option" where
  "cancel_escrow m eid now =
     (case map_of (active_escrows m) eid of
        None \<Rightarrow> (m, False, None)
      | Some escrow \<Rightarrow>
          if now \<le> expires_at escrow then (m, False, None)
          else
            (let cancel_transaction = build_escrow_cancel_transaction escrow now;
                 escrow1 = escrow\<lparr>status := EXPIRED\<rparr>;
                 m1 = m\<lparr>active_escrows := AList.update eid escrow1 (active_escrows m)\<rparr>
             in (log_escrow_action m1 now ''CANCELLED'' eid (payer escrow1) (payee escrow1)
                   (amount escrow1), True, Some cancel_transaction)))"



definition new_escrow_manager :: "bool \<Rightarrow> XRPLEscrowManager" where
  "new_escrow_manager t = \<lparr>testnet = t, active_escrows = [], escrow_history = []\<rparr>"

definition escrow_state :: "XRPLEscrowManager \<Rightarrow> string \<Rightarrow> EscrowStatus option" where
  "escrow_state m eid = map_option status (map_of (active_escrows m) eid)"

subsection \<open>Properties of the engine's state, and a sample run\<close>

text \<open>The data-model invariant of the escrow store: the registered escrows have pairwise
  different consent ids, and every amount is strictly positive.\<close>

definition one_escrow_per_consent :: "XRPLEscrowManager \<Rightarrow> bool" where
  "one_escrow_per_consent m = distinct (map (consent_id \<circ> snd) (active_escrows m))"

definition amounts_positive :: "XRPLEscrowManager \<Rightarrow> bool" where
  "amounts_positive m = list_all (\<lambda>a. 0 < a) (map (amount \<circ> snd) (active_escrows m))"

definition escrow_invariant :: "XRPLEscrowManager \<Rightarrow> bool" where
  "escrow_invariant m = (one_escrow_per_consent m \<and> amounts_positive m)"



text \<open>A run of the engine: an offer of 50 XRP is created at time 0 with a delivery window
  of 72 hours (so it expires at 345600), locked at time 10 and fulfilled at time 20.\<close>

definition demo_created :: XRPLEscrowManager where
  "demo_created = fst (create_escrow_offer (new_escrow_manager True) ''rPayer'' ''rPayee'' 50
      ''urn:uuid:c1'' ''abc'' 72 ''01'' ''s3cret'' 0)"

definition demo_locked :: XRPLEscrowManager where
  "demo_locked = fst (lock_escrow_funds demo_created ''escrow_01'' 12345 10)"

definition demo_fulfilled :: XRPLEscrowManager where
  "demo_fulfilled = fst (fulfill_escrow demo_locked ''escrow_01'' ''abc'' ''s3cret'' 20)"

definition demo_contract :: EscrowContract where
  "demo_contract =
     \<lparr>escrow_id = ''escrow_01'', payer = ''rPayer'', payee = ''rPayee'', amount = 50,
      consent_id = ''urn:uuid:c1'',
      data_condition = \<lparr>fhir_bundle_hash = ''abc'', preimage = ''s3cret'',
        preimage_hash = SHA256 (Utf8 ''s3cret''), delivery_deadline = 259200\<rparr>,
      created_at = 0, expires_at = 345600, status = LOCKED, xrpl_sequence = Some 12345,
      fulfillment_tx = None\<rparr>"


section \<open>audit_trail.py: the audit chain\<close>

datatype AuditEventType = CONSENT_CREATED | CONSENT_WITHDRAWN | DATA_REQUESTED
  | ESCROW_CREATED | ESCROW_LOCKED | DATA_DELIVERED | PAYMENT_COMPLETED
  | ACCESS_GRANTED | ACCESS_REVOKED | COMPLIANCE_CHECK

record AuditEvent =
  event_id :: string
  event_type :: AuditEventType
  timestamp :: datetime
  actor :: string
  subject :: string
  resource_id :: string
  xrpl_tx_hash :: "string option"
  metadata :: "(string \<times> json) list option"
  compliance_status :: "string option"

text \<open>The manager's fields that the operations below read or write; \<open>xrpl_transactions\<close>
  is the transaction index, a dict from transaction hash to the recorded entry. The list
  \<open>access_logs\<close> belongs to \<open>record_data_access\<close> and its readers only.\<close>

record AuditTrailManager =
  audit_platform_did :: string
  audit_events :: "AuditEvent list"
  xrpl_transactions :: "(string \<times> json) list"

definition new_audit_manager :: "string \<Rightarrow> AuditTrailManager" where
  "new_audit_manager did = \<lparr>audit_platform_did = did, audit_events = [], xrpl_transactions = []\<rparr>"

text \<open>\<open>_check_compliance\<close>; \<^verbatim>\<open>event.metadata and all(...)\<close> is false for \<^verbatim>\<open>None\<close> and for the
  empty dict.\<close>

definition required_fields :: "string list" where
  "required_fields = [''purpose'', ''dataTypes'', ''retentionPeriod'', ''recipient'']"

definition check_compliance :: "AuditEvent \<Rightarrow> string" where
  "check_compliance event =
     (if event_type event = CONSENT_CREATED then
        (if (case metadata event of None \<Rightarrow> False
             | Some d \<Rightarrow> d \<noteq> [] \<and> list_all (\<lambda>field. field \<in> set (map fst d)) required_fields)
         then ''COMPLIANT'' else ''NON_COMPLIANT'')
      else if event_type event = ACCESS_GRANTED then ''COMPLIANT''
      else ''COMPLIANT'')"

text \<open>\<open>record_audit_event\<close>; \<open>token\<close> is the result of \<^verbatim>\<open>_generate_id()\<close>, and
  \<^verbatim>\<open>metadata or {}\<close> stores the empty dict for \<^verbatim>\<open>None\<close>.\<close>

definition record_audit_event ::
  "AuditTrailManager \<Rightarrow> AuditEventType \<Rightarrow> string \<Rightarrow> string \<Rightarrow> string \<Rightarrow> string option
    \<Rightarrow> (string \<times> json) list option \<Rightarrow> string \<Rightarrow> datetime \<Rightarrow> AuditTrailManager \<times> string" where
  "record_audit_event m ty act subj rid tx_hash md token now =
     (let eid = ''audit_'' @ token;
          audit_event = \<lparr>event_id = eid, event_type = ty, timestamp = now, actor = act,
            subject = subj, resource_id = rid, xrpl_tx_hash = tx_hash,
            metadata = Some (case md of None \<Rightarrow> [] | Some d \<Rightarrow> d),
            compliance_status = None\<rparr>;
          audit_event1 = audit_event\<lparr>compliance_status := Some (check_compliance audit_event)\<rparr>
      in (m\<lparr>audit_events := audit_events m @ [audit_event1]\<rparr>, eid))"

text \<open>\<open>verify_data_integrity\<close>. A check is the dict built for one event (its \<open>timestamp\<close>
  is the event's, printed by the code); the loop over \<^verbatim>\<open>enumerate(related_events)\<close> carries
  the previous event, which is absent at index 0. The report is one of the two dicts the
  function returns.\<close>

record integrity_check =
  chk_eventId :: string
  chk_timestamp :: datetime
  chk_valid :: bool
  chk_issues :: "string list"

datatype integrity_report =
    No_trail_report (valid: bool) (reason: string)
  | Integrity_report (resourceId: string) (valid: bool) (eventCount: nat)
      (checks: "integrity_check list") (verifiedAt: datetime)

definition check_event ::
  "(string \<times> json) list \<Rightarrow> AuditEvent option \<Rightarrow> AuditEvent \<Rightarrow> integrity_check" where
  "check_event index prev event =
     (let check = \<lparr>chk_eventId = event_id event, chk_timestamp = timestamp event,
                    chk_valid = True, chk_issues = []\<rparr>;
          check1 =
            (if (case xrpl_tx_hash event of None \<Rightarrow> False
                 | Some h \<Rightarrow> h \<noteq> [] \<and> h \<notin> set (map fst index))
             then check\<lparr>chk_valid := False,
                        chk_issues := chk_issues check @ [''Missing XRPL transaction'']\<rparr>
             else check)
      in (case prev of
            None \<Rightarrow> check1
          | Some prev_event \<Rightarrow>
              if timestamp event < timestamp prev_event
              then check1\<lparr>chk_valid := False,
                          chk_issues := chk_issues check1 @ [''Invalid timestamp order'']\<rparr>
              else check1))"

fun integrity_checks ::
  "(string \<times> json) list \<Rightarrow> AuditEvent option \<Rightarrow> AuditEvent list \<Rightarrow> integrity_check list" where
  "integrity_checks index prev [] = []"
| "integrity_checks index prev (event # events) =
     check_event index prev event # integrity_checks index (Some event) events"

definition verify_data_integrity ::
  "AuditTrailManager \<Rightarrow> string \<Rightarrow> datetime \<Rightarrow> integrity_report" where
  "verify_data_integrity m rid now =
     (let related_events = filter (\<lambda>e. resource_id e = rid) (audit_events m)
      in if related_events = [] then No_trail_report False ''No audit trail found''
         else
           (let sorted_events = sort_key timestamp related_events;
                check_list = integrity_checks (xrpl_transactions m) None sorted_events;
                overall_valid = list_all chk_valid check_list
            in Integrity_report rid overall_valid (length sorted_events) check_list now))"

text \<open>Three events of one resource, appended while the clock read 2, then 1, then 3.\<close>

definition demo_audit :: AuditTrailManager where
  "demo_audit =
     (let m0 = new_audit_manager ''did:xrpl:platform'';
          m1 = fst (record_audit_event m0 DATA_DELIVERED ''a'' ''s'' ''res'' None None ''01'' 2);
          m2 = fst (record_audit_event m1 DATA_DELIVERED ''a'' ''s'' ''res'' None None ''02'' 1)
      in fst (record_audit_event m2 DATA_DELIVERED ''a'' ''s'' ''res'' None None ''03'' 3))"


section \<open>consent_manager.py: consent credentials\<close>

text \<open>The exceptions that reach a caller of the modelled operations.\<close>

datatype py_error = KeyError | TypeError | ValueError string

text \<open>\<^verbatim>\<open>d[key]\<close> on a value of a \<^verbatim>\<open>Dict[str, Any]\<close>, and the truth value of such a value.\<close>

fun subscript :: "json \<Rightarrow> string \<Rightarrow> py_error + json" where
  "subscript (JObj d) k = (case map_of d k of None \<Rightarrow> Inl KeyError | Some v \<Rightarrow> Inr v)"
| "subscript j k = Inl TypeError"

fun truthy :: "json \<Rightarrow> bool" where
  "truthy JNull = False"
| "truthy (JBool b) = b"
| "truthy (JNum r) = (r \<noteq> 0)"
| "truthy (JStr s) = (s \<noteq> [])"
| "truthy (JDate t) = True"
| "truthy (JHex g) = True"
| "truthy (JArr xs) = (xs \<noteq> [])"
| "truthy (JObj d) = (d \<noteq> [])"

record ConsentScope =
  data_types :: "string list"
  collection_period :: string
  usage_purpose :: string
  third_party_sharing :: bool
  retention_period :: string

text \<open>\<open>terms_created_at\<close> is the field \<^verbatim>\<open>created_at\<close>, which \<^verbatim>\<open>__post_init__\<close> fills with the
  current time when it is not given.\<close>

record ConsentTerms =
  recipient :: string
  scope :: ConsentScope
  compensation :: real
  valid_until :: datetime
  withdrawal_right :: bool
  terms_created_at :: datetime

definition new_ConsentTerms ::
  "string \<Rightarrow> ConsentScope \<Rightarrow> real \<Rightarrow> datetime \<Rightarrow> datetime \<Rightarrow> ConsentTerms" where
  "new_ConsentTerms rcp sc amt until now =
     \<lparr>recipient = rcp, scope = sc, compensation = amt, valid_until = until,
      withdrawal_right = True, terms_created_at = now\<rparr>"

text \<open>The fields \<^verbatim>\<open>context\<close>, \<^verbatim>\<open>id\<close>, \<^verbatim>\<open>type\<close> and \<^verbatim>\<open>proof\<close> carry the prefix \<open>vc_\<close>.\<close>

record VerifiableCredential =
  vc_context :: "string list"
  vc_id :: string
  vc_type :: "string list"
  issuer :: string
  issuance_date :: datetime
  expiration_date :: datetime
  credential_subject :: "(string \<times> json) list"
  vc_proof :: "(string \<times> json) list option"

definition to_dict :: "VerifiableCredential \<Rightarrow> (string \<times> json) list" where
  "to_dict vc =
     [(''@context'', JArr (map JStr (vc_context vc))),
      (''id'', JStr (vc_id vc)),
      (''type'', JArr (map JStr (vc_type vc))),
      (''issuer'', JStr (issuer vc)),
      (''issuanceDate'', JDate (issuance_date vc)),
      (''expirationDate'', JDate (expiration_date vc)),
      (''credentialSubject'', JObj (credential_subject vc)),
      (''proof'', (case vc_proof vc of None \<Rightarrow> JNull | Some p \<Rightarrow> JObj p))]"

text \<open>An entry of \<open>consent_history\<close>; the recipient is the value read from the credential
  subject.\<close>

record consent_log_entry =
  clog_timestamp :: datetime
  clog_action :: string
  clog_consentId :: string
  clog_patientDid :: string
  clog_recipient :: json

record ConsentManager =
  consent_platform_did :: string
  private_key :: nat
  public_key :: nat
  active_consents :: "(string \<times> VerifiableCredential) list"
  consent_history :: "consent_log_entry list"

definition new_consent_manager :: "string \<Rightarrow> nat \<Rightarrow> ConsentManager" where
  "new_consent_manager did key =
     \<lparr>consent_platform_did = did, private_key = key, public_key = key,
      active_consents = [], consent_history = []\<rparr>"

definition log_consent_action ::
  "ConsentManager \<Rightarrow> datetime \<Rightarrow> string \<Rightarrow> string \<Rightarrow> string \<Rightarrow> json \<Rightarrow> ConsentManager" where
  "log_consent_action m now action cid patient rcp =
     m\<lparr>consent_history := consent_history m @
        [\<lparr>clog_timestamp = now, clog_action = action, clog_consentId = cid,
          clog_patientDid = patient, clog_recipient = rcp\<rparr>]\<rparr>"

text \<open>\<open>_create_proof\<close>: the digest is taken over the whole of \<open>to_dict vc\<close>; \<open>salt\<close> is the
  random salt of the PSS padding.\<close>

definition create_proof ::
  "ConsentManager \<Rightarrow> VerifiableCredential \<Rightarrow> nat \<Rightarrow> datetime \<Rightarrow> (string \<times> json) list" where
  "create_proof m vc salt now =
     (let vc_dict = to_dict vc;
          vc_json = json_dumps_sorted vc_dict;
          message_hash = SHA256 vc_json;
          signature = rsa_sign (private_key m) message_hash salt
      in [(''type'', JStr ''RsaSignature2018''),
          (''created'', JDate now),
          (''verificationMethod'', JStr (consent_platform_did m @ ''#key-1'')),
          (''proofPurpose'', JStr ''assertionMethod''),
          (''signatureValue'', JHex signature)])"

text \<open>\<open>_verify_proof\<close>: the digest is taken over \<open>to_dict vc\<close> with the key \<open>proof\<close> deleted.
  Every exception inside the \<^verbatim>\<open>try\<close> block (no proof, no \<open>signatureValue\<close>, a value that
  is not the hex text of a signature, a signature that does not verify) gives False.\<close>

definition verify_proof :: "ConsentManager \<Rightarrow> VerifiableCredential \<Rightarrow> bool" where
  "verify_proof m vc =
     (let vc_dict = AList.delete ''proof'' (to_dict vc);
          vc_json = json_dumps_sorted vc_dict;
          message_hash = SHA256 vc_json
      in (case vc_proof vc of
            None \<Rightarrow> False
          | Some p \<Rightarrow>
              (case map_of p ''signatureValue'' of
                 Some (JHex signature) \<Rightarrow> rsa_verify (public_key m) signature message_hash
               | _ \<Rightarrow> False)))"

text \<open>The sentence stored under \<open>consequencesOfRefusal\<close>, as its UTF-8 bytes.\<close>

definition consequences_of_refusal :: string where
  "consequences_of_refusal = map char_of
     [235, 141, 176, 236, 157, 180, 237, 132, 176, 32, 236, 160, 156, 234, 179, 181, 32,
      235, 182, 136, 234, 176, 128, 235, 161, 156, 32, 236, 157, 184, 237, 149, 156, 32,
      236, 151, 176, 234, 181, 172, 32, 236, 176, 184, 236, 151, 172, 32, 236, 160, 156,
      237, 149, 156 :: nat]"

text \<open>\<open>create_consent_vc\<close>; \<open>uuid\<close> is the result of \<^verbatim>\<open>_generate_uuid()\<close>.\<close>

definition create_consent_vc ::
  "ConsentManager \<Rightarrow> string \<Rightarrow> ConsentTerms \<Rightarrow> string \<Rightarrow> nat \<Rightarrow> datetime
    \<Rightarrow> ConsentManager \<times> VerifiableCredential" where
  "create_consent_vc m patient_did consent_terms uuid salt now =
     (let vid = ''urn:uuid:'' @ uuid;
          subj =
            [(''id'', JStr patient_did),
             (''consentGiven'', JBool True),
             (''consentTerms'', JObj
               [(''recipient'', JStr (recipient consent_terms)),
                (''purpose'', JStr (usage_purpose (scope consent_terms))),
                (''dataTypes'', JArr (map JStr (data_types (scope consent_terms)))),
                (''collectionPeriod'', JStr (collection_period (scope consent_terms))),
                (''retentionPeriod'', JStr (retention_period (scope consent_terms))),
                (''thirdPartySharing'', JBool (third_party_sharing (scope consent_terms))),
                (''compensation'', JObj
                  [(''amount'', JNum (compensation consent_terms)),
                   (''currency'', JStr ''XRP'')]),
                (''withdrawalRight'', JBool (withdrawal_right consent_terms)),
                (''pipaCompliance'', JObj
                  [(''recipientNotified'', JBool True),
                   (''purposeSpecified'', JBool True),
                   (''dataTypesListed'', JBool True),
                   (''retentionPeriodSpecified'', JBool True),
                   (''consequencesOfRefusal'', JStr consequences_of_refusal)])]),
             (''consentDate'', JDate (terms_created_at consent_terms)),
             (''validUntil'', JDate (valid_until consent_terms))];
          vc = \<lparr>vc_context = [''https://www.w3.org/2018/credentials/v1'',
                    ''https://www.w3.org/2018/credentials/examples/v1'',
                    ''https://sportique.health/contexts/consent/v1''],
                vc_id = vid,
                vc_type = [''VerifiableCredential'', ''HealthDataConsentCredential''],
                issuer = consent_platform_did m,
                issuance_date = now,
                expiration_date = valid_until consent_terms,
                credential_subject = subj,
                vc_proof = None\<rparr>;
          vc1 = vc\<lparr>vc_proof := Some (create_proof m vc salt now)\<rparr>;
          m1 = m\<lparr>active_consents := AList.update vid vc1 (active_consents m)\<rparr>
      in (log_consent_action m1 now ''CREATED'' vid patient_did
            (JStr (recipient consent_terms)), vc1))"

text \<open>\<open>verify_consent\<close>. The two subscripts on the credential subject are outside the
  \<^verbatim>\<open>try\<close> block of \<open>_verify_proof\<close>, so a missing key is an exception of the call.\<close>

definition verify_consent ::
  "ConsentManager \<Rightarrow> string \<Rightarrow> string \<Rightarrow> datetime \<Rightarrow> py_error + bool" where
  "verify_consent m vid rcp now =
     (case map_of (active_consents m) vid of
        None \<Rightarrow> Inr False
      | Some vc \<Rightarrow>
          if now > expiration_date vc then Inr False
          else
            (case subscript (JObj (credential_subject vc)) ''consentTerms'' of
               Inl e \<Rightarrow> Inl e
             | Inr consent_terms \<Rightarrow>
                 (case subscript consent_terms ''recipient'' of
                    Inl e \<Rightarrow> Inl e
                  | Inr r \<Rightarrow>
                      if r \<noteq> JStr rcp then Inr False
                      else
                        (case subscript (JObj (credential_subject vc)) ''consentGiven'' of
                           Inl e \<Rightarrow> Inl e
                         | Inr given \<Rightarrow>
                             if \<not> truthy given then Inr False
                             else Inr (verify_proof m vc)))))"

text \<open>\<open>withdraw_consent\<close>. The credential object is marked withdrawn and then removed from
  \<open>active_consents\<close>; the store keeps no reference to it.\<close>

definition withdraw_consent ::
  "ConsentManager \<Rightarrow> string \<Rightarrow> string \<Rightarrow> datetime \<Rightarrow> ConsentManager \<times> (py_error + bool)" where
  "withdraw_consent m vid patient_did now =
     (case map_of (active_consents m) vid of
        None \<Rightarrow> (m, Inr False)
      | Some vc \<Rightarrow>
          (case subscript (JObj (credential_subject vc)) ''id'' of
             Inl e \<Rightarrow> (m, Inl e)
           | Inr owner \<Rightarrow>
               if owner \<noteq> JStr patient_did then (m, Inr False)
               else
                 (let subj1 = AList.update ''withdrawalDate'' (JDate now)
                        (AList.update ''consentGiven'' (JBool False) (credential_subject vc));
                      m1 = m\<lparr>active_consents := AList.delete vid (active_consents m)\<rparr>
                  in (case subscript (JObj subj1) ''consentTerms'' of
                        Inl e \<Rightarrow> (m1, Inl e)
                      | Inr consent_terms \<Rightarrow>
                          (case subscript consent_terms ''recipient'' of
                             Inl e \<Rightarrow> (m1, Inl e)
                           | Inr r \<Rightarrow>
                               (log_consent_action m1 now ''WITHDRAWN'' vid patient_did r,
                                Inr True))))))"

text \<open>A credential issued at time 0 by the platform with key 7, valid until time 1000.\<close>

definition demo_terms :: ConsentTerms where
  "demo_terms = new_ConsentTerms ''did:xrpl:hospital''
     \<lparr>data_types = [''Observation'', ''Condition''], collection_period = ''3months'',
      usage_purpose = ''research'', third_party_sharing = False,
      retention_period = ''5years''\<rparr> 50 1000 0"

definition demo_consents :: ConsentManager where
  "demo_consents = fst (create_consent_vc (new_consent_manager ''did:xrpl:platform'' 7)
     ''did:xrpl:patient'' demo_terms ''c1'' 99 0)"


section \<open>sportique_platform.py: the orchestrator\<close>

text \<open>The constructors of \<^verbatim>\<open>OfferStatus\<close> carry the prefix \<open>OFFER_\<close>, and the fields of an
  offer and of a transaction that share their name with a field above carry the prefix
  \<open>offer_\<close> or \<open>tx_\<close>.\<close>

datatype OfferStatus = OFFER_PENDING | OFFER_ACCEPTED | OFFER_REJECTED | OFFER_COMPLETED
  | OFFER_EXPIRED

record DataOffer =
  offer_id :: string
  requester :: string
  requester_name :: string
  offer_data_types :: "string list"
  purpose :: string
  offer_compensation :: real
  offer_collection_period :: string
  offer_retention_period :: string
  offer_third_party_sharing :: bool
  offer_valid_until :: datetime
  offer_created_at :: datetime
  offer_status :: OfferStatus
  target_criteria :: "(string \<times> json) list option"

record DataTransaction =
  transaction_id :: string
  tx_offer_id :: string
  patient_did :: string
  tx_consent_id :: string
  tx_escrow_id :: string
  bundle_id :: string
  bundle_hash :: string
  tx_status :: string
  tx_created_at :: datetime
  completed_at :: "datetime option"

text \<open>The platform's mutable fields (\<open>user_profiles\<close> is never read or written). The
  record-construction collaborator
  (\<^verbatim>\<open>fhir_manager\<close>) is outside the model: its answer to
  \<^verbatim>\<open>create_sample_heart_rate_bundle\<close>, a bundle id and a bundle hash, is an input of
  \<open>accept_offer\<close>.\<close>

record SportiQuePlatform =
  platform_did :: string
  consent_manager :: ConsentManager
  escrow_manager :: XRPLEscrowManager
  audit_manager :: AuditTrailManager
  offers :: "(string \<times> DataOffer) list"
  transactions :: "(string \<times> DataTransaction) list"

definition new_platform :: "string \<Rightarrow> bool \<Rightarrow> nat \<Rightarrow> SportiQuePlatform" where
  "new_platform did tn key =
     \<lparr>platform_did = did,
      consent_manager = new_consent_manager did key,
      escrow_manager = new_escrow_manager tn,
      audit_manager = new_audit_manager did,
      offers = [], transactions = []\<rparr>"

text \<open>\<open>create_data_offer\<close>; \<open>token\<close> and \<open>audit_token\<close> are results of \<^verbatim>\<open>_generate_id()\<close>,
  and \<^verbatim>\<open>timedelta(days=d)\<close> is 24 hours a day.\<close>

definition create_data_offer ::
  "SportiQuePlatform \<Rightarrow> string \<Rightarrow> string \<Rightarrow> string list \<Rightarrow> string \<Rightarrow> real \<Rightarrow> string
    \<Rightarrow> string \<Rightarrow> bool \<Rightarrow> int \<Rightarrow> (string \<times> json) list option \<Rightarrow> string \<Rightarrow> string
    \<Rightarrow> datetime \<Rightarrow> SportiQuePlatform \<times> string" where
  "create_data_offer p requester_did req_name dtypes purp amt coll_period ret_period
      sharing valid_days criteria token audit_token now =
     (let oid = ''offer_'' @ token;
          offer = \<lparr>offer_id = oid, requester = requester_did, requester_name = req_name,
            offer_data_types = dtypes, purpose = purp, offer_compensation = amt,
            offer_collection_period = coll_period, offer_retention_period = ret_period,
            offer_third_party_sharing = sharing,
            offer_valid_until = now + timedelta_hours (24 * valid_days),
            offer_created_at = now, offer_status = OFFER_PENDING,
            target_criteria = criteria\<rparr>;
          p1 = p\<lparr>offers := AList.update oid offer (offers p)\<rparr>;
          am = fst (record_audit_event (audit_manager p1) DATA_REQUESTED requester_did
                 ''platform'' oid None
                 (Some [(''dataTypes'', JArr (map JStr dtypes)), (''purpose'', JStr purp),
                        (''compensation'', JNum amt)])
                 audit_token now)
      in (p1\<lparr>audit_manager := am\<rparr>, oid))"

text \<open>The values that \<open>accept_offer\<close> draws from outside: the clock, the identifiers and
  the secret it generates, the salt of the signature, and the collaborator's bundle.\<close>

record accept_env =
  env_now :: datetime
  env_uuid :: string
  env_salt :: nat
  env_bundle_id :: string
  env_bundle_hash :: string
  env_escrow_token :: string
  env_preimage :: string
  env_tx_token :: string
  env_audit_token :: string

record accept_result =
  res_transactionId :: string
  res_consentId :: string
  res_escrowId :: string
  res_bundleId :: string
  res_bundleHash :: string
  res_xrplTransaction :: xrpl_transaction

definition accept_offer ::
  "SportiQuePlatform \<Rightarrow> string \<Rightarrow> string \<Rightarrow> string \<Rightarrow> string \<Rightarrow> accept_env
    \<Rightarrow> SportiQuePlatform \<times> (py_error + accept_result)" where
  "accept_offer p oid patient patient_xrpl_address requester_xrpl_address env =
     (case map_of (offers p) oid of
        None \<Rightarrow> (p, Inl (ValueError ''Offer not found''))
      | Some offer \<Rightarrow>
          if offer_status offer \<noteq> OFFER_PENDING then
            (p, Inl (ValueError ''Offer is not available''))
          else if env_now env > offer_valid_until offer then
            (p\<lparr>offers := AList.update oid (offer\<lparr>offer_status := OFFER_EXPIRED\<rparr>) (offers p)\<rparr>,
             Inl (ValueError ''Offer has expired''))
          else
            (let consent_scope = \<lparr>data_types = offer_data_types offer,
                   collection_period = offer_collection_period offer,
                   usage_purpose = purpose offer,
                   third_party_sharing = offer_third_party_sharing offer,
                   retention_period = offer_retention_period offer\<rparr>;
                 consent_terms = new_ConsentTerms (requester offer) consent_scope
                   (offer_compensation offer) (offer_valid_until offer) (env_now env);
                 (cm, consent_vc) = create_consent_vc (consent_manager p) patient consent_terms
                   (env_uuid env) (env_salt env) (env_now env);
                 bid = env_bundle_id env;
                 bhash = env_bundle_hash env;
                 (em, escrow_contract, xrpl_tx) = create_escrow_offer (escrow_manager p)
                   requester_xrpl_address patient_xrpl_address (offer_compensation offer)
                   (vc_id consent_vc) bhash 72 (env_escrow_token env) (env_preimage env)
                   (env_now env);
                 tid = ''tx_'' @ env_tx_token env;
                 transaction = \<lparr>transaction_id = tid, tx_offer_id = oid, patient_did = patient,
                   tx_consent_id = vc_id consent_vc, tx_escrow_id = escrow_id escrow_contract,
                   bundle_id = bid, bundle_hash = bhash, tx_status = ''CONSENT_GIVEN'',
                   tx_created_at = env_now env, completed_at = None\<rparr>;
                 (am, event_id) = record_audit_event (audit_manager p) CONSENT_CREATED patient
                   patient (vc_id consent_vc) None
                   (Some [(''offerId'', JStr oid), (''transactionId'', JStr tid),
                          (''escrowId'', JStr (escrow_id escrow_contract))])
                   (env_audit_token env) (env_now env)
             in (p\<lparr>consent_manager := cm, escrow_manager := em, audit_manager := am,
                   offers := AList.update oid (offer\<lparr>offer_status := OFFER_ACCEPTED\<rparr>) (offers p),
                   transactions := AList.update tid transaction (transactions p)\<rparr>,
                 Inr \<lparr>res_transactionId = tid, res_consentId = vc_id consent_vc,
                      res_escrowId = escrow_id escrow_contract, res_bundleId = bid,
                      res_bundleHash = bhash, res_xrplTransaction = xrpl_tx\<rparr>)))"

text \<open>\<open>complete_data_delivery\<close>. The result of the lock step is not looked at; the
  subscript \<^verbatim>\<open>active_escrows[transaction.escrow_id]\<close> raises \<^verbatim>\<open>KeyError\<close> for an escrow that
  is not registered. \<open>t1\<close> and \<open>t2\<close> are the identifiers of the two audit events.\<close>

record completion_result =
  done_success :: bool
  done_transactionId :: string
  done_status :: string
  done_completedAt :: datetime
  done_xrplFinishTransaction :: "xrpl_transaction option"

definition complete_data_delivery ::
  "SportiQuePlatform \<Rightarrow> string \<Rightarrow> int \<Rightarrow> string \<Rightarrow> string \<Rightarrow> datetime
    \<Rightarrow> SportiQuePlatform \<times> (py_error + completion_result)" where
  "complete_data_delivery p tid seq t1 t2 now =
     (case map_of (transactions p) tid of
        None \<Rightarrow> (p, Inl (ValueError ''Transaction not found''))
      | Some transaction \<Rightarrow>
          (let em1 = fst (lock_escrow_funds (escrow_manager p) (tx_escrow_id transaction) seq now)
           in (case map_of (active_escrows em1) (tx_escrow_id transaction) of
                 None \<Rightarrow> (p\<lparr>escrow_manager := em1\<rparr>, Inl KeyError)
               | Some escrow_contract \<Rightarrow>
                   (let (em2, success, finish_tx) = fulfill_escrow em1 (tx_escrow_id transaction)
                          (bundle_hash transaction) (preimage (data_condition escrow_contract)) now
                    in if \<not> success then
                         (p\<lparr>escrow_manager := em2\<rparr>, Inl (ValueError ''Failed to fulfill escrow''))
                       else
                         (let transaction1 = transaction\<lparr>tx_status := ''COMPLETED'',
                                completed_at := Some now\<rparr>;
                              am1 = fst (record_audit_event (audit_manager p) DATA_DELIVERED
                                (platform_did p) (patient_did transaction1)
                                (tx_consent_id transaction1) None
                                (Some [(''transactionId'', JStr tid),
                                       (''bundleHash'', JStr (bundle_hash transaction1)),
                                       (''escrowId'', JStr (tx_escrow_id transaction1))])
                                t1 now);
                              am2 = fst (record_audit_event am1 PAYMENT_COMPLETED
                                (platform_did p) (patient_did transaction1)
                                (tx_escrow_id transaction1) None
                                (Some [(''amount'', JNum (amount escrow_contract)),
                                       (''currency'', JStr ''XRP'')])
                                t2 now)
                          in (p\<lparr>escrow_manager := em2, audit_manager := am2,
                                transactions := AList.update tid transaction1 (transactions p)\<rparr>,
                              Inr \<lparr>done_success = True, done_transactionId = tid,
                                   done_status = tx_status transaction1,
                                   done_completedAt = now,
                                   done_xrplFinishTransaction = finish_tx\<rparr>))))))"

text \<open>A run of the platform: a hospital offers 50 XRP at time 0 for 30 days; a patient
  accepts at time 100, which opens an escrow that expires at 100 + 96 hours = 345700.\<close>

definition demo_offered :: SportiQuePlatform where
  "demo_offered = fst (create_data_offer (new_platform ''did:xrpl:platform'' True 7)
     ''did:xrpl:hospital'' ''Hospital'' [''Observation''] ''research'' 50 ''3months''
     ''5years'' False 30 None ''o1'' ''a1'' 0)"

definition demo_env :: accept_env where
  "demo_env = \<lparr>env_now = 100, env_uuid = ''c1'', env_salt = 99, env_bundle_id = ''bundle_1'',
     env_bundle_hash = ''abc'', env_escrow_token = ''e1'', env_preimage = ''s3cret'',
     env_tx_token = ''t1'', env_audit_token = ''a2''\<rparr>"

definition demo_accepted :: SportiQuePlatform where
  "demo_accepted = fst (accept_offer demo_offered ''offer_o1'' ''did:xrpl:patient'' ''rPatient''
     ''rHospital'' demo_env)"

definition demo_result :: accept_result where
  "demo_result = \<lparr>res_transactionId = ''tx_t1'', res_consentId = ''urn:uuid:c1'',
     res_escrowId = ''escrow_e1'', res_bundleId = ''bundle_1'', res_bundleHash = ''abc'',
     res_xrplTransaction = EscrowCreate ''rHospital'' ''rPatient'' 50000000
       (345700 - 946684800) (SHA256 (Utf8 ''s3cret''))
       [Memo ''SportiQueEscrow'' (JObj [])]\<rparr>"

text \<open>The transaction and the escrow that the accepted offer of the run creates.\<close>

definition demo_transaction :: DataTransaction where
  "demo_transaction = \<lparr>transaction_id = ''tx_t1'', tx_offer_id = ''offer_o1'',
     patient_did = ''did:xrpl:patient'', tx_consent_id = ''urn:uuid:c1'',
     tx_escrow_id = ''escrow_e1'', bundle_id = ''bundle_1'', bundle_hash = ''abc'',
     tx_status = ''CONSENT_GIVEN'', tx_created_at = 100, completed_at = None\<rparr>"

definition demo_escrow :: EscrowContract where
  "demo_escrow = \<lparr>escrow_id = ''escrow_e1'', payer = ''rHospital'', payee = ''rPatient'',
     amount = 50, consent_id = ''urn:uuid:c1'',
     data_condition = \<lparr>fhir_bundle_hash = ''abc'', preimage = ''s3cret'',
       preimage_hash = SHA256 (Utf8 ''s3cret''), delivery_deadline = 259300\<rparr>,
     created_at = 100, expires_at = 345700, status = CREATED, xrpl_sequence = None,
     fulfillment_tx = None\<rparr>"


section \<open>Verification: the escrow engine\<close>

lemmas escrow_defs = new_escrow_manager_def create_escrow_offer_def lock_escrow_funds_def
  fulfill_escrow_def cancel_escrow_def escrow_state_def log_escrow_action_def Let_def
  timedelta_hours_def demo_created_def demo_locked_def demo_fulfilled_def

lemma update_proj_same:
  "map_of ps k = Some e \<Longrightarrow> f e' = f e \<Longrightarrow>
   map (f \<circ> snd) (AList.update k e' ps) = map (f \<circ> snd) ps"
  by (induction ps) (auto split: if_splits)

lemma update_proj_subset:
  "set (map (f \<circ> snd) (AList.update k e ps)) \<subseteq> insert (f e) (set (map (f \<circ> snd) ps))"
  by (induction ps) auto

lemma update_proj_distinct:
  "distinct (map (f \<circ> snd) ps) \<Longrightarrow> f e \<notin> set (map (f \<circ> snd) ps) \<Longrightarrow>
   distinct (map (f \<circ> snd) (AList.update k e ps))"
proof (induction ps)
  case Nil
  then show ?case by simp
next
  case (Cons p ps)
  obtain k' v' where p: "p = (k', v')" by (cases p)
  show ?case
  proof (cases "k' = k")
    case True
    with Cons.prems p show ?thesis by simp
  next
    case False
    have "f v' \<notin> set (map (f \<circ> snd) (AList.update k e ps))"
      using update_proj_subset[of f k e ps] Cons.prems p by auto
    with Cons p False show ?thesis by simp
  qed
qed

lemma lock_proj:
  "map (consent_id \<circ> snd) (active_escrows (fst (lock_escrow_funds m eid seq now)))
     = map (consent_id \<circ> snd) (active_escrows m)"
  "map (amount \<circ> snd) (active_escrows (fst (lock_escrow_funds m eid seq now)))
     = map (amount \<circ> snd) (active_escrows m)"
  by (auto simp add: lock_escrow_funds_def log_escrow_action_def Let_def update_proj_same
      split: option.splits)

lemma fulfill_proj:
  "map (consent_id \<circ> snd) (active_escrows (fst (fulfill_escrow m eid h p now)))
     = map (consent_id \<circ> snd) (active_escrows m)"
  "map (amount \<circ> snd) (active_escrows (fst (fulfill_escrow m eid h p now)))
     = map (amount \<circ> snd) (active_escrows m)"
  by (auto simp add: fulfill_escrow_def log_escrow_action_def Let_def update_proj_same
      split: option.splits)

lemma cancel_proj:
  "map (consent_id \<circ> snd) (active_escrows (fst (cancel_escrow m eid now)))
     = map (consent_id \<circ> snd) (active_escrows m)"
  "map (amount \<circ> snd) (active_escrows (fst (cancel_escrow m eid now)))
     = map (amount \<circ> snd) (active_escrows m)"
  by (auto simp add: cancel_escrow_def log_escrow_action_def Let_def update_proj_same
      split: option.splits)

lemma create_active:
  "active_escrows (fst (create_escrow_offer m a b amt cid h dh tok sec now))
     = AList.update (''escrow_'' @ tok)
         (fst (snd (create_escrow_offer m a b amt cid h dh tok sec now))) (active_escrows m)"
  by (simp add: create_escrow_offer_def log_escrow_action_def Let_def)

lemma create_contract_fields:
  "consent_id (fst (snd (create_escrow_offer m a b amt cid h dh tok sec now))) = cid"
  "amount (fst (snd (create_escrow_offer m a b amt cid h dh tok sec now))) = amt"
  by (simp_all add: create_escrow_offer_def Let_def)

text \<open>
  Claim C2 (cancel succeeds exactly when the escrow is past expiry and not terminal; a
  terminal escrow is never overwritten). The code has no check of the state:
  \<open>cancel_escrow\<close> on the escrow that was fulfilled at time 20, called after the expiry,
  returns success and overwrites \<open>FULFILLED\<close> with \<open>EXPIRED\<close>.
\<close>

theorem cancel_overwrites_fulfilled:
  "escrow_state demo_fulfilled ''escrow_01'' = Some FULFILLED
   \<and> fst (snd (cancel_escrow demo_fulfilled ''escrow_01'' 400000))
   \<and> escrow_state (fst (cancel_escrow demo_fulfilled ''escrow_01'' 400000)) ''escrow_01''
       = Some EXPIRED"
  by (simp add: escrow_defs)

text \<open>
  Claim C3 (fulfilment). For a registered escrow, \<open>fulfill_escrow\<close> succeeds if and only if
  the escrow is \<open>LOCKED\<close>, the current time is not past the expiry, the supplied content
  digest is the bound one and the digest of the revealed secret is the stored commitment.
  On success the escrow becomes \<open>FULFILLED\<close> (its other fields unchanged), the call
  returns the \<open>EscrowFinish\<close> envelope carrying the revealed secret, and one \<open>FULFILLED\<close>
  entry is logged; on failure no envelope is returned and nothing is logged. No other
  escrow is touched, and an escrow that is not \<open>LOCKED\<close> leaves the whole store
  unchanged. When the escrow is \<open>LOCKED\<close> and unexpired and one of the two digest checks
  fails, the call fails and leaves the whole store unchanged, the escrow \<open>LOCKED\<close>; when
  the escrow is \<open>LOCKED\<close> and past expiry, the call fails and the escrow becomes
  \<open>EXPIRED\<close>.
\<close>

theorem fulfill_escrow_spec:
  assumes "map_of (active_escrows m) eid = Some e"
  shows "(fst (snd (fulfill_escrow m eid h p now)) \<longleftrightarrow>
            status e = LOCKED \<and> \<not> now > expires_at e
            \<and> h = fhir_bundle_hash (data_condition e)
            \<and> SHA256 (Utf8 p) = preimage_hash (data_condition e))
       \<and> (status e = LOCKED \<and> \<not> now > expires_at e
            \<and> h = fhir_bundle_hash (data_condition e)
            \<and> SHA256 (Utf8 p) = preimage_hash (data_condition e)
          \<longrightarrow> escrow_state (fst (fulfill_escrow m eid h p now)) eid = Some FULFILLED
              \<and> map_of (active_escrows (fst (fulfill_escrow m eid h p now))) eid
                  = Some (e\<lparr>status := FULFILLED\<rparr>)
              \<and> snd (snd (fulfill_escrow m eid h p now))
                  = Some (EscrowFinish (payee e) (payer e) (xrpl_sequence e) (upper p)
                      [Memo ''SportiQueComplete''
                         (JObj [(''EscrowID'', JStr (escrow_id e)),
                                (''ConsentID'', JStr (consent_id e)),
                                (''CompletedAt'', JDate now)])])
              \<and> escrow_history (fst (fulfill_escrow m eid h p now))
                  = escrow_history m @
                      [\<lparr>log_timestamp = now, log_action = ''FULFILLED'', log_escrowId = eid,
                        log_payer = payer e, log_payee = payee e, log_amount = amount e\<rparr>])
       \<and> (\<not> fst (snd (fulfill_escrow m eid h p now))
          \<longrightarrow> snd (snd (fulfill_escrow m eid h p now)) = None
              \<and> escrow_history (fst (fulfill_escrow m eid h p now)) = escrow_history m)
       \<and> (\<forall>k. k \<noteq> eid \<longrightarrow>
             map_of (active_escrows (fst (fulfill_escrow m eid h p now))) k
               = map_of (active_escrows m) k)
       \<and> (status e \<noteq> LOCKED \<longrightarrow> fst (fulfill_escrow m eid h p now) = m)
       \<and> (status e = LOCKED \<and> \<not> now > expires_at e
            \<and> (h \<noteq> fhir_bundle_hash (data_condition e)
                 \<or> SHA256 (Utf8 p) \<noteq> preimage_hash (data_condition e))
          \<longrightarrow> \<not> fst (snd (fulfill_escrow m eid h p now))
              \<and> fst (fulfill_escrow m eid h p now) = m
              \<and> escrow_state (fst (fulfill_escrow m eid h p now)) eid = Some LOCKED)
       \<and> (status e = LOCKED \<and> now > expires_at e
          \<longrightarrow> \<not> fst (snd (fulfill_escrow m eid h p now))
              \<and> escrow_state (fst (fulfill_escrow m eid h p now)) eid = Some EXPIRED
              \<and> map_of (active_escrows (fst (fulfill_escrow m eid h p now))) eid
                  = Some (e\<lparr>status := EXPIRED\<rparr>))"
proof -
  let ?r = "fulfill_escrow m eid h p now"
  let ?ok = "status e = LOCKED \<and> \<not> now > expires_at e
            \<and> h = fhir_bundle_hash (data_condition e)
            \<and> SHA256 (Utf8 p) = preimage_hash (data_condition e)"
  have ok: "?r = (log_escrow_action
              (m\<lparr>active_escrows := AList.update eid (e\<lparr>status := FULFILLED\<rparr>) (active_escrows m)\<rparr>)
              now ''FULFILLED'' eid (payer e) (payee e) (amount e),
            True, Some (build_escrow_finish_transaction e p now))" if "?ok"
    using assms that by (simp add: fulfill_escrow_def Let_def)
  have expired: "?r = (m\<lparr>active_escrows :=
              AList.update eid (e\<lparr>status := EXPIRED\<rparr>) (active_escrows m)\<rparr>, False, None)"
    if "status e = LOCKED" "now > expires_at e"
    using assms that by (simp add: fulfill_escrow_def Let_def)
  have other: "?r = (m, False, None)"
    if "\<not> ?ok" "\<not> (status e = LOCKED \<and> now > expires_at e)"
    using assms that by (auto simp add: fulfill_escrow_def Let_def)
  consider (a) "?ok" | (b) "status e = LOCKED" "now > expires_at e"
    | (c) "\<not> ?ok" "\<not> (status e = LOCKED \<and> now > expires_at e)"
    by blast
  then show ?thesis
  proof cases
    case a
    show ?thesis
      unfolding ok [OF a] using a
      by (simp add: escrow_state_def log_escrow_action_def
          build_escrow_finish_transaction_def update_conv')
  next
    case b
    show ?thesis
      unfolding expired [OF b] using b
      by (simp add: escrow_state_def update_conv')
  next
    case c
    have "status e = LOCKED \<Longrightarrow> \<not> now > expires_at e" using c by blast
    with c assms show ?thesis
      unfolding other [OF c] by (auto simp add: escrow_state_def)
  qed
qed

theorem fulfill_escrow_spec_witness:
  "map_of (active_escrows demo_locked) ''escrow_01'' = Some demo_contract
   \<and> fst (snd (fulfill_escrow demo_locked ''escrow_01'' ''abc'' ''s3cret'' 20))
   \<and> escrow_state (fst (fulfill_escrow demo_locked ''escrow_01'' ''abc'' ''s3cret'' 20))
        ''escrow_01'' = Some FULFILLED
   \<and> snd (snd (fulfill_escrow demo_locked ''escrow_01'' ''abc'' ''s3cret'' 20))
        = Some (EscrowFinish (payee demo_contract) (payer demo_contract)
            (xrpl_sequence demo_contract) (upper ''s3cret'')
            [Memo ''SportiQueComplete''
               (JObj [(''EscrowID'', JStr (escrow_id demo_contract)),
                      (''ConsentID'', JStr (consent_id demo_contract)),
                      (''CompletedAt'', JDate 20)])])
   \<and> \<not> fst (snd (fulfill_escrow demo_locked ''escrow_01'' ''abd'' ''s3cret'' 20))
   \<and> escrow_state (fst (fulfill_escrow demo_locked ''escrow_01'' ''abd'' ''s3cret'' 20))
        ''escrow_01'' = Some LOCKED
   \<and> snd (snd (fulfill_escrow demo_locked ''escrow_01'' ''abd'' ''s3cret'' 20)) = None
   \<and> \<not> fst (snd (fulfill_escrow demo_locked ''escrow_01'' ''abc'' ''guess'' 20))
   \<and> escrow_state (fst (fulfill_escrow demo_locked ''escrow_01'' ''abc'' ''guess'' 20))
        ''escrow_01'' = Some LOCKED
   \<and> \<not> fst (snd (fulfill_escrow demo_locked ''escrow_01'' ''abc'' ''s3cret'' 345601))
   \<and> escrow_state (fst (fulfill_escrow demo_locked ''escrow_01'' ''abc'' ''s3cret'' 345601))
        ''escrow_01'' = Some EXPIRED"
proof -
  have e: "map_of (active_escrows demo_locked) ''escrow_01'' = Some demo_contract"
    by (simp add: escrow_defs demo_contract_def)
  have c: "status demo_contract = LOCKED" "expires_at demo_contract = 345600"
    "fhir_bundle_hash (data_condition demo_contract) = ''abc''"
    "preimage_hash (data_condition demo_contract) = SHA256 (Utf8 ''s3cret'')"
    by (simp_all add: demo_contract_def)
  have n: "''abd'' \<noteq> ''abc''" "SHA256 (Utf8 ''guess'') \<noteq> SHA256 (Utf8 ''s3cret'')"
    "\<not> (20::int) > 345600" "(345601::int) > 345600"
    by simp_all
  have 1: "fst (snd (fulfill_escrow demo_locked ''escrow_01'' ''abc'' ''s3cret'' 20))
      \<and> escrow_state (fst (fulfill_escrow demo_locked ''escrow_01'' ''abc'' ''s3cret'' 20))
           ''escrow_01'' = Some FULFILLED
      \<and> snd (snd (fulfill_escrow demo_locked ''escrow_01'' ''abc'' ''s3cret'' 20))
        = Some (EscrowFinish (payee demo_contract) (payer demo_contract)
            (xrpl_sequence demo_contract) (upper ''s3cret'')
            [Memo ''SportiQueComplete''
               (JObj [(''EscrowID'', JStr (escrow_id demo_contract)),
                      (''ConsentID'', JStr (consent_id demo_contract)),
                      (''CompletedAt'', JDate 20)])])"
    using fulfill_escrow_spec [OF e, of "''abc''" "''s3cret''" 20] c n by metis
  have 2: "\<not> fst (snd (fulfill_escrow demo_locked ''escrow_01'' ''abd'' ''s3cret'' 20))
      \<and> escrow_state (fst (fulfill_escrow demo_locked ''escrow_01'' ''abd'' ''s3cret'' 20))
           ''escrow_01'' = Some LOCKED
      \<and> snd (snd (fulfill_escrow demo_locked ''escrow_01'' ''abd'' ''s3cret'' 20)) = None"
    using fulfill_escrow_spec [OF e, of "''abd''" "''s3cret''" 20] c n by metis
  have 3: "\<not> fst (snd (fulfill_escrow demo_locked ''escrow_01'' ''abc'' ''guess'' 20))
      \<and> escrow_state (fst (fulfill_escrow demo_locked ''escrow_01'' ''abc'' ''guess'' 20))
           ''escrow_01'' = Some LOCKED"
    using fulfill_escrow_spec [OF e, of "''abc''" "''guess''" 20] c n by metis
  have 4: "\<not> fst (snd (fulfill_escrow demo_locked ''escrow_01'' ''abc'' ''s3cret'' 345601))
      \<and> escrow_state (fst (fulfill_escrow demo_locked ''escrow_01'' ''abc'' ''s3cret'' 345601))
           ''escrow_01'' = Some EXPIRED"
    using fulfill_escrow_spec [OF e, of "''abc''" "''s3cret''" 345601] c n by metis
  from e 1 2 3 4 show ?thesis by blast
qed

text \<open>
  Claim C4 (lock is a no-op returning false outside \<open>CREATED\<close>). The code has no check of
  the state: \<open>lock_escrow_funds\<close> on the fulfilled escrow returns true, puts it back to
  \<open>LOCKED\<close> and replaces its sequence reference.
\<close>

theorem lock_reopens_fulfilled:
  "escrow_state demo_fulfilled ''escrow_01'' = Some FULFILLED
   \<and> snd (lock_escrow_funds demo_fulfilled ''escrow_01'' 7 30)
   \<and> escrow_state (fst (lock_escrow_funds demo_fulfilled ''escrow_01'' 7 30)) ''escrow_01''
       = Some LOCKED
   \<and> map_option xrpl_sequence
       (map_of (active_escrows (fst (lock_escrow_funds demo_fulfilled ''escrow_01'' 7 30)))
          ''escrow_01'') = Some (Some 7)
   \<and> map_option xrpl_sequence (map_of (active_escrows demo_fulfilled) ''escrow_01'')
       = Some (Some 12345)"
  by (simp add: escrow_defs)

text \<open>
  Claim C8 (every operation keeps one escrow per consent id and positive amounts; in
  particular \<open>create_escrow_offer\<close> never registers a second escrow for a consent id nor a
  non-positive amount). As stated it fails: on the store holding the escrow of consent
  \<open>urn:uuid:c1\<close>, a second offer for the same consent id is registered, and so is an offer
  of amount 0.
\<close>

theorem escrow_invariant_counterexample:
  "escrow_invariant demo_created
   \<and> \<not> escrow_invariant (fst (create_escrow_offer demo_created ''rPayer'' ''rPayee'' 50
          ''urn:uuid:c1'' ''abc'' 72 ''02'' ''other'' 5))
   \<and> \<not> escrow_invariant (fst (create_escrow_offer demo_created ''rPayer'' ''rPayee'' 0
          ''urn:uuid:c2'' ''abc'' 72 ''02'' ''other'' 5))"
  by (simp add: escrow_defs escrow_invariant_def one_escrow_per_consent_def amounts_positive_def)

text \<open>
  Claim C8, amended: \<open>lock_escrow_funds\<close>, \<open>fulfill_escrow\<close> and \<open>cancel_escrow\<close> preserve
  the invariant, and \<open>create_escrow_offer\<close> preserves it when it is called with a positive
  amount and a consent id that no registered escrow carries.
\<close>

theorem escrow_invariant_preserved:
  assumes "escrow_invariant m"
  shows "escrow_invariant (fst (lock_escrow_funds m eid seq now))
       \<and> escrow_invariant (fst (fulfill_escrow m eid h p now))
       \<and> escrow_invariant (fst (cancel_escrow m eid now))
       \<and> (0 < amt \<and> cid \<notin> set (map (consent_id \<circ> snd) (active_escrows m))
            \<longrightarrow> escrow_invariant (fst (create_escrow_offer m a b amt cid h' dh tok sec now)))"
proof -
  have d: "distinct (map (consent_id \<circ> snd) (active_escrows m))"
    and pos: "\<forall>x \<in> set (map (amount \<circ> snd) (active_escrows m)). 0 < x"
    using assms by (simp_all add: escrow_invariant_def one_escrow_per_consent_def
        amounts_positive_def list_all_iff)
  have 1: "escrow_invariant (fst (lock_escrow_funds m eid seq now))"
    using assms by (simp add: escrow_invariant_def one_escrow_per_consent_def
        amounts_positive_def lock_proj)
  have 2: "escrow_invariant (fst (fulfill_escrow m eid h p now))"
    using assms by (simp add: escrow_invariant_def one_escrow_per_consent_def
        amounts_positive_def fulfill_proj)
  have 3: "escrow_invariant (fst (cancel_escrow m eid now))"
    using assms by (simp add: escrow_invariant_def one_escrow_per_consent_def
        amounts_positive_def cancel_proj)
  have 4: "escrow_invariant (fst (create_escrow_offer m a b amt cid h' dh tok sec now))"
    if amt: "0 < amt" and fresh: "cid \<notin> set (map (consent_id \<circ> snd) (active_escrows m))"
  proof -
    let ?c = "fst (snd (create_escrow_offer m a b amt cid h' dh tok sec now))"
    let ?m = "fst (create_escrow_offer m a b amt cid h' dh tok sec now)"
    have "distinct (map (consent_id \<circ> snd) (active_escrows ?m))"
      unfolding create_active
      using d fresh by (intro update_proj_distinct) (simp_all add: create_contract_fields)
    moreover have sub: "set (map (amount \<circ> snd) (active_escrows ?m))
        \<subseteq> insert (amount ?c) (set (map (amount \<circ> snd) (active_escrows m)))"
      unfolding create_active by (rule update_proj_subset)
    have "\<forall>x \<in> set (map (amount \<circ> snd) (active_escrows ?m)). 0 < x"
    proof
      fix x assume "x \<in> set (map (amount \<circ> snd) (active_escrows ?m))"
      with sub have "x = amount ?c \<or> x \<in> set (map (amount \<circ> snd) (active_escrows m))"
        by blast
      then show "0 < x" using pos amt by (auto simp add: create_contract_fields)
    qed
    ultimately show ?thesis
      by (simp only: escrow_invariant_def one_escrow_per_consent_def amounts_positive_def
          list_all_iff)
  qed
  from 1 2 3 4 show ?thesis by blast
qed

theorem escrow_invariant_preserved_witness:
  "escrow_invariant demo_created
   \<and> (0::real) < 20 \<and> ''urn:uuid:c2'' \<notin> set (map (consent_id \<circ> snd) (active_escrows demo_created))
   \<and> escrow_invariant (fst (lock_escrow_funds demo_created ''escrow_01'' 12345 10))
   \<and> escrow_invariant (fst (create_escrow_offer demo_created ''rPayer'' ''rPayee'' 20
          ''urn:uuid:c2'' ''abc'' 72 ''02'' ''other'' 10))"
proof -
  have inv: "escrow_invariant demo_created"
    by (simp add: escrow_defs escrow_invariant_def one_escrow_per_consent_def
        amounts_positive_def)
  have fresh: "(0::real) < 20
      \<and> ''urn:uuid:c2'' \<notin> set (map (consent_id \<circ> snd) (active_escrows demo_created))"
    by (simp add: escrow_defs)
  from escrow_invariant_preserved [OF inv, where eid = "''escrow_01''" and seq = 12345
      and now = 10 and amt = 20 and cid = "''urn:uuid:c2''" and a = "''rPayer''"
      and b = "''rPayee''" and h' = "''abc''" and dh = 72 and tok = "''02''"
      and sec = "''other''"]
    inv fresh
  show ?thesis by blast
qed




section \<open>Verification: the audit chain\<close>

lemmas audit_defs = new_audit_manager_def record_audit_event_def check_compliance_def
  verify_data_integrity_def check_event_def Let_def demo_audit_def

text \<open>
  Claim C5 (the integrity report: missing external references are flagged, a resource
  without events is invalid with reason "no audit trail", and events stored out of
  timestamp order, such as \<open>[t2, t1, t3]\<close>, give an ordering violation and an invalid
  report). The code sorts the events by timestamp before it compares neighbours, so the
  comparison never fails: for the events appended at times 2, 1 and 3 the report is valid
  and no check carries an issue.
\<close>

theorem reordered_events_report_valid:
  "map timestamp (audit_events demo_audit) = [2, 1, 3]
   \<and> valid (verify_data_integrity demo_audit ''res'' 9)
   \<and> map chk_timestamp (checks (verify_data_integrity demo_audit ''res'' 9)) = [1, 2, 3]
   \<and> map chk_issues (checks (verify_data_integrity demo_audit ''res'' 9)) = [[], [], []]"
  by (simp add: audit_defs)

lemma check_event_order_issue:
  "''Invalid timestamp order'' \<in> set (chk_issues (check_event index prev event))
   \<longleftrightarrow> (\<exists>p. prev = Some p \<and> timestamp event < timestamp p)"
  by (auto simp add: check_event_def Let_def split: option.splits)

lemma integrity_checks_sorted_no_order_issue:
  "sorted (map timestamp events) \<Longrightarrow>
   (\<forall>p. prev = Some p \<longrightarrow> (\<forall>e \<in> set events. timestamp p \<le> timestamp e)) \<Longrightarrow>
   c \<in> set (integrity_checks index prev events) \<Longrightarrow>
   ''Invalid timestamp order'' \<notin> set (chk_issues c)"
proof (induction events arbitrary: prev)
  case Nil
  then show ?case by simp
next
  case (Cons e es)
  from Cons.prems(3) consider "c = check_event index prev e"
    | "c \<in> set (integrity_checks index (Some e) es)" by auto
  then show ?case
  proof cases
    case 1
    with Cons.prems(2) show ?thesis
      by (auto simp add: check_event_order_issue)
  next
    case 2
    have "sorted (map timestamp es)" using Cons.prems(1) by simp
    moreover have "\<forall>p. Some e = Some p \<longrightarrow> (\<forall>x \<in> set es. timestamp p \<le> timestamp x)"
      using Cons.prems(1) by simp
    ultimately show ?thesis using Cons.IH 2 by blast
  qed
qed

lemma ordering_violation_never_reported:
  assumes "verify_data_integrity m rid now = Integrity_report r v n cs t" and "c \<in> set cs"
  shows "''Invalid timestamp order'' \<notin> set (chk_issues c)"
proof -
  let ?es = "sort_key timestamp (filter (\<lambda>e. resource_id e = rid) (audit_events m))"
  have "cs = integrity_checks (xrpl_transactions m) None ?es"
    using assms(1) by (auto simp add: verify_data_integrity_def Let_def split: if_splits)
  with assms(2) show ?thesis
    using integrity_checks_sorted_no_order_issue [of ?es None c "xrpl_transactions m"]
    by simp
qed

lemma no_events_report_invalid:
  "filter (\<lambda>e. resource_id e = rid) (audit_events m) = [] \<Longrightarrow>
   verify_data_integrity m rid now = No_trail_report False ''No audit trail found''"
  by (simp add: verify_data_integrity_def)

lemma missing_reference_flagged:
  "xrpl_tx_hash event = Some h \<Longrightarrow> h \<noteq> [] \<Longrightarrow> h \<notin> set (map fst index) \<Longrightarrow>
   \<not> chk_valid (check_event index prev event)
   \<and> ''Missing XRPL transaction'' \<in> set (chk_issues (check_event index prev event))"
  by (simp add: check_event_def Let_def split: option.splits)


section \<open>Verification: consent credentials\<close>

lemmas consent_defs = new_consent_manager_def new_ConsentTerms_def create_consent_vc_def
  create_proof_def verify_proof_def verify_consent_def to_dict_def log_consent_action_def
  json_dumps_sorted_def rsa_sign_def Let_def demo_terms_def demo_consents_def


text \<open>
  Claim C1 (a credential issued by \<open>create_consent_vc\<close> verifies for its recipient before
  expiry; verification fails closed otherwise). The proof is signed over the serialised
  credential in which the key \<open>proof\<close> is present with the value null, and verified over
  the serialisation from which the key is deleted, so the digests differ: the credential
  issued at time 0 and valid until time 1000 does not verify at time 1 for its recipient.
\<close>

theorem issued_credential_fails_verification:
  "map_option expiration_date (map_of (active_consents demo_consents) ''urn:uuid:c1'') = Some 1000
   \<and> verify_consent demo_consents ''urn:uuid:c1'' ''did:xrpl:hospital'' 1 = Inr False"
  by (simp add: consent_defs)


lemma map_of_update_same: "map_of (AList.update k v ps) k = Some v"
  by (simp add: update_conv')

lemma signed_form_differs:
  "json_dumps_sorted (to_dict (vc\<lparr>vc_proof := None\<rparr>))
     \<noteq> json_dumps_sorted (AList.delete ''proof'' (to_dict (vc\<lparr>vc_proof := Some p\<rparr>)))"
  by (simp add: json_dumps_sorted_def to_dict_def)

lemma issued_credential_never_verifies:
  "verify_consent (fst (create_consent_vc m patient terms uuid salt now))
     (''urn:uuid:'' @ uuid) rcp now' = Inr False"
  by (simp add: create_consent_vc_def verify_consent_def verify_proof_def create_proof_def
      to_dict_def log_consent_action_def json_dumps_sorted_def rsa_sign_def Let_def
      map_of_update_same)

lemma verify_proof_accepts_stripped_signature:
  "vc_proof vc = Some p \<Longrightarrow>
   map_of p ''signatureValue'' = Some (JHex (rsa_sign (private_key m)
       (SHA256 (json_dumps_sorted (AList.delete ''proof'' (to_dict vc)))) salt)) \<Longrightarrow>
   public_key m = private_key m \<Longrightarrow>
   verify_proof m vc"
  by (simp add: verify_proof_def rsa_sign_def Let_def)

lemma verify_consent_fails_closed:
  assumes "map_of (active_consents m) vid = Some vc"
    and "now > expiration_date vc
         \<or> subscript (JObj (credential_subject vc)) ''consentTerms'' = Inr (JObj terms)
            \<and> map_of terms ''recipient'' = Some r \<and> r \<noteq> JStr rcp
         \<or> subscript (JObj (credential_subject vc)) ''consentTerms'' = Inr (JObj terms)
            \<and> map_of terms ''recipient'' = Some r
            \<and> map_of (credential_subject vc) ''consentGiven'' = Some g
            \<and> (\<not> truthy g \<or> \<not> verify_proof m vc)"
  shows "verify_consent m vid rcp now = Inr False"
  using assms by (auto simp add: verify_consent_def)

lemma verify_consent_after_withdrawal:
  "map_of (active_consents m) vid = Some vc \<Longrightarrow>
   snd (withdraw_consent m vid patient now) = Inr True \<Longrightarrow>
   verify_consent (fst (withdraw_consent m vid patient now)) vid rcp now' = Inr False"
  by (auto simp add: withdraw_consent_def verify_consent_def log_consent_action_def Let_def
      delete_conv' split: sum.splits if_splits json.splits option.splits)


section \<open>Verification: the orchestrator\<close>

lemmas platform_defs = new_platform_def create_data_offer_def accept_offer_def
  complete_data_delivery_def demo_offered_def demo_env_def demo_accepted_def

lemma create_consent_vc_id:
  "vc_id (snd (create_consent_vc m patient terms uuid salt now)) = ''urn:uuid:'' @ uuid"
  by (simp add: create_consent_vc_def Let_def)

lemma create_escrow_offer_id:
  "escrow_id (fst (snd (create_escrow_offer m a b amt cid h dh tok sec now))) = ''escrow_'' @ tok"
  by (simp add: create_escrow_offer_def Let_def)

lemma create_escrow_offer_history:
  "escrow_history (fst (create_escrow_offer m a b amt cid h dh tok sec now))
     = escrow_history m @ [\<lparr>log_timestamp = now, log_action = ''CREATED'',
         log_escrowId = ''escrow_'' @ tok, log_payer = a, log_payee = b, log_amount = amt\<rparr>]"
  by (simp add: create_escrow_offer_def log_escrow_action_def Let_def)

lemma accept_offer_success_iff:
  "\<not> isl (snd (accept_offer p oid patient pa ra env)) \<longleftrightarrow>
     (\<exists>offer. map_of (offers p) oid = Some offer \<and> offer_status offer = OFFER_PENDING
        \<and> \<not> env_now env > offer_valid_until offer)"
  by (auto simp add: accept_offer_def Let_def case_prod_beta split: option.splits)

lemma accept_offer_audit_events:
  assumes "snd (accept_offer p oid patient pa ra env) = Inr r"
  shows "audit_events (audit_manager (fst (accept_offer p oid patient pa ra env)))
     = audit_events (audit_manager p) @
         [\<lparr>event_id = ''audit_'' @ env_audit_token env, event_type = CONSENT_CREATED,
           timestamp = env_now env, actor = patient, subject = patient,
           resource_id = res_consentId r, xrpl_tx_hash = None,
           metadata = Some [(''offerId'', JStr oid),
                            (''transactionId'', JStr (res_transactionId r)),
                            (''escrowId'', JStr (res_escrowId r))],
           compliance_status = Some ''NON_COMPLIANT''\<rparr>]"
  using assms
  by (auto simp add: accept_offer_def Let_def case_prod_beta record_audit_event_def
      check_compliance_def required_fields_def split: option.splits if_splits)

lemma accept_offer_escrow_history:
  assumes "snd (accept_offer p oid patient pa ra env) = Inr r"
  shows "\<exists>entry. escrow_history (escrow_manager (fst (accept_offer p oid patient pa ra env)))
           = escrow_history (escrow_manager p) @ [entry]
         \<and> log_action entry = ''CREATED'' \<and> log_escrowId entry = res_escrowId r"
  using assms
  by (auto simp add: accept_offer_def Let_def case_prod_beta create_escrow_offer_history
      create_escrow_offer_id split: option.splits if_splits)

lemma demo_accept_result:
  "snd (accept_offer demo_offered ''offer_o1'' ''did:xrpl:patient'' ''rPatient'' ''rHospital''
     demo_env) = Inr demo_result"
  by (simp add: accept_offer_def demo_offered_def demo_env_def demo_result_def new_platform_def
      create_data_offer_def new_escrow_manager_def Let_def case_prod_beta create_consent_vc_id
      create_escrow_offer_def build_escrow_create_transaction_def get_xrpl_memo_data_def
      timedelta_hours_def py_int_def ripple_epoch_offset_def)

text \<open>
  Claim C6 (every successful \<open>accept_offer\<close> appends two audit events, consent created and
  then escrow created). As stated it fails: the accepted offer of the sample run leaves
  the audit chain with the offer's \<open>DATA_REQUESTED\<close> event and one new event,
  \<open>CONSENT_CREATED\<close>; no \<open>ESCROW_CREATED\<close> event is appended.
\<close>

theorem accept_offer_one_audit_event_counterexample:
  "\<not> isl (snd (accept_offer demo_offered ''offer_o1'' ''did:xrpl:patient'' ''rPatient''
       ''rHospital'' demo_env))
   \<and> map event_type (audit_events (audit_manager demo_offered)) = [DATA_REQUESTED]
   \<and> map event_type (audit_events (audit_manager demo_accepted))
       = [DATA_REQUESTED, CONSENT_CREATED]"
proof -
  have "map event_type (audit_events (audit_manager demo_offered)) = [DATA_REQUESTED]"
    by (simp add: demo_offered_def new_platform_def create_data_offer_def
        new_audit_manager_def record_audit_event_def Let_def)
  then show ?thesis
    using accept_offer_audit_events [OF demo_accept_result]
    by (simp add: demo_accept_result demo_accepted_def)
qed

text \<open>
  Claim C6, amended: every successful \<open>accept_offer\<close> appends exactly one audit event, of
  kind \<open>CONSENT_CREATED\<close> for the new consent; the creation of the escrow is recorded in
  the escrow engine's own history, as one new \<open>CREATED\<close> entry for the new escrow.
\<close>

theorem accept_offer_appends_consent_event:
  assumes "snd (accept_offer p oid patient pa ra env) = Inr r"
  shows "\<exists>ev entry.
      audit_events (audit_manager (fst (accept_offer p oid patient pa ra env)))
        = audit_events (audit_manager p) @ [ev]
      \<and> event_type ev = CONSENT_CREATED \<and> resource_id ev = res_consentId r
      \<and> escrow_history (escrow_manager (fst (accept_offer p oid patient pa ra env)))
        = escrow_history (escrow_manager p) @ [entry]
      \<and> log_action entry = ''CREATED'' \<and> log_escrowId entry = res_escrowId r"
  using accept_offer_audit_events [OF assms] accept_offer_escrow_history [OF assms]
  by auto

theorem accept_offer_appends_consent_event_witness:
  "snd (accept_offer demo_offered ''offer_o1'' ''did:xrpl:patient'' ''rPatient'' ''rHospital''
     demo_env) = Inr demo_result
   \<and> (\<exists>ev entry.
      audit_events (audit_manager demo_accepted)
        = audit_events (audit_manager demo_offered) @ [ev]
      \<and> event_type ev = CONSENT_CREATED \<and> resource_id ev = ''urn:uuid:c1''
      \<and> escrow_history (escrow_manager demo_accepted)
        = escrow_history (escrow_manager demo_offered) @ [entry]
      \<and> log_action entry = ''CREATED'' \<and> log_escrowId entry = ''escrow_e1'')"
proof -
  have r: "res_consentId demo_result = ''urn:uuid:c1''" "res_escrowId demo_result = ''escrow_e1''"
    by (simp_all add: demo_result_def)
  from accept_offer_appends_consent_event [OF demo_accept_result] demo_accept_result
  show ?thesis unfolding demo_accepted_def r by blast
qed

lemma check_compliance_consent_created:
  assumes "event_type e = CONSENT_CREATED"
  shows "check_compliance e = ''COMPLIANT'' \<longleftrightarrow>
           (\<exists>d. metadata e = Some d
              \<and> {''purpose'', ''dataTypes'', ''retentionPeriod'', ''recipient''}
                   \<subseteq> fst ` set d)"
proof (cases "metadata e")
  case None
  with assms show ?thesis by (simp add: check_compliance_def)
next
  case (Some d)
  have "d \<noteq> []" if "''purpose'' \<in> fst ` set d" using that by auto
  with assms Some show ?thesis
    by (simp add: check_compliance_def required_fields_def)
qed

text \<open>
  Claim C10: the \<open>CONSENT_CREATED\<close> event appended by a successful \<open>accept_offer\<close> carries
  the metadata keys \<open>offerId\<close>, \<open>transactionId\<close> and \<open>escrowId\<close> only and is flagged
  \<open>NON_COMPLIANT\<close>, the rule for \<open>CONSENT_CREATED\<close> being that an event is \<open>COMPLIANT\<close>
  exactly when its metadata has all of the keys \<open>purpose\<close>, \<open>dataTypes\<close>,
  \<open>retentionPeriod\<close> and \<open>recipient\<close>.
\<close>

theorem accept_offer_consent_event_non_compliant:
  assumes "snd (accept_offer p oid patient pa ra env) = Inr r"
  shows "(\<exists>ev.
      audit_events (audit_manager (fst (accept_offer p oid patient pa ra env)))
        = audit_events (audit_manager p) @ [ev]
      \<and> event_type ev = CONSENT_CREATED
      \<and> metadata ev = Some [(''offerId'', JStr oid),
                            (''transactionId'', JStr (res_transactionId r)),
                            (''escrowId'', JStr (res_escrowId r))]
      \<and> compliance_status ev = Some ''NON_COMPLIANT'')
    \<and> (\<forall>e. event_type e = CONSENT_CREATED \<longrightarrow>
          (check_compliance e = ''COMPLIANT'' \<longleftrightarrow>
             (\<exists>d. metadata e = Some d
                \<and> {''purpose'', ''dataTypes'', ''retentionPeriod'', ''recipient''}
                     \<subseteq> fst ` set d)))"
proof (rule conjI)
  show "\<exists>ev.
      audit_events (audit_manager (fst (accept_offer p oid patient pa ra env)))
        = audit_events (audit_manager p) @ [ev]
      \<and> event_type ev = CONSENT_CREATED
      \<and> metadata ev = Some [(''offerId'', JStr oid),
                            (''transactionId'', JStr (res_transactionId r)),
                            (''escrowId'', JStr (res_escrowId r))]
      \<and> compliance_status ev = Some ''NON_COMPLIANT''"
    using accept_offer_audit_events [OF assms] by simp
next
  show "\<forall>e. event_type e = CONSENT_CREATED \<longrightarrow>
          (check_compliance e = ''COMPLIANT'' \<longleftrightarrow>
             (\<exists>d. metadata e = Some d
                \<and> {''purpose'', ''dataTypes'', ''retentionPeriod'', ''recipient''}
                     \<subseteq> fst ` set d))"
    using check_compliance_consent_created by blast
qed

theorem accept_offer_consent_event_non_compliant_witness:
  "snd (accept_offer demo_offered ''offer_o1'' ''did:xrpl:patient'' ''rPatient'' ''rHospital''
     demo_env) = Inr demo_result
   \<and> (\<exists>ev. audit_events (audit_manager demo_accepted)
          = audit_events (audit_manager demo_offered) @ [ev]
        \<and> event_type ev = CONSENT_CREATED
        \<and> compliance_status ev = Some ''NON_COMPLIANT'')"
proof -
  from accept_offer_consent_event_non_compliant [OF demo_accept_result] demo_accept_result
  show ?thesis unfolding demo_accepted_def by blast
qed

lemma lock_escrow_present:
  assumes "map_of (active_escrows m) eid = Some e"
  shows "map_of (active_escrows (fst (lock_escrow_funds m eid seq now))) eid
           = Some (e\<lparr>status := LOCKED, xrpl_sequence := Some seq\<rparr>)"
  using assms
  by (simp add: lock_escrow_funds_def log_escrow_action_def Let_def map_of_update_same)

lemma lock_escrow_absent:
  assumes "map_of (active_escrows m) eid = None"
  shows "fst (lock_escrow_funds m eid seq now) = m"
  using assms by (simp add: lock_escrow_funds_def)

lemma fulfill_after_lock_record:
  assumes "map_of (active_escrows m) eid = Some e" and "status e = LOCKED"
    and "\<not> fst (snd (fulfill_escrow m eid h p now))"
  shows "map_of (active_escrows (fst (fulfill_escrow m eid h p now))) eid
           = Some (e\<lparr>status := (if now > expires_at e then EXPIRED else LOCKED)\<rparr>)
       \<and> escrow_history (fst (fulfill_escrow m eid h p now)) = escrow_history m"
  using assms
  by (auto simp add: fulfill_escrow_def log_escrow_action_def Let_def
      map_of_update_same split: if_splits)

lemma lock_escrow_history:
  assumes "map_of (active_escrows m) eid = Some e"
  shows "escrow_history (fst (lock_escrow_funds m eid seq now))
           = escrow_history m @
               [\<lparr>log_timestamp = now, log_action = ''LOCKED'', log_escrowId = eid,
                 log_payer = payer e, log_payee = payee e, log_amount = amount e\<rparr>]"
  using assms by (simp add: lock_escrow_funds_def log_escrow_action_def Let_def)

text \<open>
  Claim C7, amended: when \<open>complete_data_delivery\<close> fails, the transaction table (so the
  transaction's status), the audit chain, the consents and the offers are unchanged, and
  no audit event is appended for the failure. The escrow is not put back: for a
  registered escrow the failure is that of the fulfil step, and the escrow is left as
  the lock step made it, \<open>LOCKED\<close> with the new sequence number and one \<open>LOCKED\<close> entry in
  the engine's history, its status being \<open>EXPIRED\<close> instead when the current time is past
  its expiry; for an escrow that is not registered the call raises \<open>KeyError\<close>, and for
  an unknown transaction \<open>ValueError\<close>, and nothing changes.
\<close>

theorem complete_data_delivery_failure:
  assumes "snd (complete_data_delivery p tid seq t1 t2 now) = Inl err"
  shows "transactions (fst (complete_data_delivery p tid seq t1 t2 now)) = transactions p
       \<and> audit_manager (fst (complete_data_delivery p tid seq t1 t2 now)) = audit_manager p
       \<and> consent_manager (fst (complete_data_delivery p tid seq t1 t2 now)) = consent_manager p
       \<and> offers (fst (complete_data_delivery p tid seq t1 t2 now)) = offers p
       \<and> (\<forall>t e. map_of (transactions p) tid = Some t
              \<and> map_of (active_escrows (escrow_manager p)) (tx_escrow_id t) = Some e
            \<longrightarrow> err = ValueError ''Failed to fulfill escrow''
              \<and> escrow_state (escrow_manager (fst (complete_data_delivery p tid seq t1 t2 now)))
                   (tx_escrow_id t)
                  = Some (if now > expires_at e then EXPIRED else LOCKED)
              \<and> map_of (active_escrows (escrow_manager
                     (fst (complete_data_delivery p tid seq t1 t2 now)))) (tx_escrow_id t)
                  = Some (e\<lparr>status := (if now > expires_at e then EXPIRED else LOCKED),
                            xrpl_sequence := Some seq\<rparr>)
              \<and> escrow_history (escrow_manager
                     (fst (complete_data_delivery p tid seq t1 t2 now)))
                  = escrow_history (escrow_manager p) @
                      [\<lparr>log_timestamp = now, log_action = ''LOCKED'',
                        log_escrowId = tx_escrow_id t, log_payer = payer e,
                        log_payee = payee e, log_amount = amount e\<rparr>])
       \<and> (\<forall>t. map_of (transactions p) tid = Some t
              \<and> map_of (active_escrows (escrow_manager p)) (tx_escrow_id t) = None
            \<longrightarrow> err = KeyError \<and> fst (complete_data_delivery p tid seq t1 t2 now) = p)
       \<and> (map_of (transactions p) tid = None
            \<longrightarrow> err = ValueError ''Transaction not found''
              \<and> fst (complete_data_delivery p tid seq t1 t2 now) = p)"
proof -
  let ?p' = "fst (complete_data_delivery p tid seq t1 t2 now)"
  have unchanged: "transactions ?p' = transactions p \<and> audit_manager ?p' = audit_manager p
      \<and> consent_manager ?p' = consent_manager p \<and> offers ?p' = offers p"
    using assms
    by (auto simp add: complete_data_delivery_def Let_def case_prod_beta
        split: option.splits if_splits)
  have present: "err = ValueError ''Failed to fulfill escrow''
      \<and> escrow_state (escrow_manager ?p') (tx_escrow_id t)
          = Some (if now > expires_at e then EXPIRED else LOCKED)
      \<and> map_of (active_escrows (escrow_manager ?p')) (tx_escrow_id t)
          = Some (e\<lparr>status := (if now > expires_at e then EXPIRED else LOCKED),
                    xrpl_sequence := Some seq\<rparr>)
      \<and> escrow_history (escrow_manager ?p')
          = escrow_history (escrow_manager p) @
              [\<lparr>log_timestamp = now, log_action = ''LOCKED'',
                log_escrowId = tx_escrow_id t, log_payer = payer e,
                log_payee = payee e, log_amount = amount e\<rparr>]"
    if t: "map_of (transactions p) tid = Some t"
      and e: "map_of (active_escrows (escrow_manager p)) (tx_escrow_id t) = Some e" for t e
  proof -
    let ?em1 = "fst (lock_escrow_funds (escrow_manager p) (tx_escrow_id t) seq now)"
    let ?e1 = "e\<lparr>status := LOCKED, xrpl_sequence := Some seq\<rparr>"
    let ?f = "fulfill_escrow ?em1 (tx_escrow_id t) (bundle_hash t)
                (preimage (data_condition ?e1)) now"
    have l: "map_of (active_escrows ?em1) (tx_escrow_id t) = Some ?e1"
      by (rule lock_escrow_present [OF e])
    have fail: "\<not> fst (snd ?f)" and err: "err = ValueError ''Failed to fulfill escrow''"
      and st: "escrow_manager ?p' = fst ?f"
      using assms t l
      by (auto simp add: complete_data_delivery_def Let_def case_prod_beta split: if_splits)
    have rec: "map_of (active_escrows (fst ?f)) (tx_escrow_id t)
           = Some (?e1\<lparr>status := (if now > expires_at ?e1 then EXPIRED else LOCKED)\<rparr>)
       \<and> escrow_history (fst ?f) = escrow_history ?em1"
      by (rule fulfill_after_lock_record [OF l _ fail]) simp
    from rec err st lock_escrow_history [OF e, of seq now] show ?thesis
      by (simp add: escrow_state_def)
  qed
  have absent: "err = KeyError \<and> ?p' = p"
    if t: "map_of (transactions p) tid = Some t"
      and e: "map_of (active_escrows (escrow_manager p)) (tx_escrow_id t) = None" for t
    using assms t e
    by (simp add: complete_data_delivery_def Let_def lock_escrow_absent)
  have notx: "err = ValueError ''Transaction not found'' \<and> ?p' = p"
    if "map_of (transactions p) tid = None"
    using assms that by (simp add: complete_data_delivery_def)
  from unchanged present absent notx show ?thesis by blast
qed

theorem complete_data_delivery_failure_witness:
  "snd (complete_data_delivery demo_accepted ''tx_t1'' 5 ''a3'' ''a4'' 400000)
     = Inl (ValueError ''Failed to fulfill escrow'')
   \<and> map_of (transactions demo_accepted) ''tx_t1'' = Some demo_transaction
   \<and> map_of (active_escrows (escrow_manager demo_accepted)) ''escrow_e1'' = Some demo_escrow
   \<and> transactions (fst (complete_data_delivery demo_accepted ''tx_t1'' 5 ''a3'' ''a4'' 400000))
       = transactions demo_accepted
   \<and> audit_manager (fst (complete_data_delivery demo_accepted ''tx_t1'' 5 ''a3'' ''a4'' 400000))
       = audit_manager demo_accepted
   \<and> map_of (active_escrows (escrow_manager
         (fst (complete_data_delivery demo_accepted ''tx_t1'' 5 ''a3'' ''a4'' 400000))))
         ''escrow_e1''
       = Some (demo_escrow\<lparr>status := EXPIRED, xrpl_sequence := Some 5\<rparr>)"
proof -
  have f: "snd (complete_data_delivery demo_accepted ''tx_t1'' 5 ''a3'' ''a4'' 400000)
     = Inl (ValueError ''Failed to fulfill escrow'')"
    by (simp add: demo_accepted_def accept_offer_def demo_offered_def demo_env_def
        new_platform_def create_data_offer_def new_escrow_manager_def Let_def case_prod_beta
        create_escrow_offer_def complete_data_delivery_def lock_escrow_funds_def
        fulfill_escrow_def log_escrow_action_def timedelta_hours_def)
  have t: "map_of (transactions demo_accepted) ''tx_t1'' = Some demo_transaction"
    by (simp add: demo_accepted_def accept_offer_def demo_offered_def demo_env_def
        new_platform_def create_data_offer_def Let_def case_prod_beta
        create_escrow_offer_id create_consent_vc_id demo_transaction_def
        timedelta_hours_def)
  have e: "map_of (active_escrows (escrow_manager demo_accepted)) ''escrow_e1''
             = Some demo_escrow"
    by (simp add: demo_accepted_def accept_offer_def demo_offered_def demo_env_def
        new_platform_def create_data_offer_def new_escrow_manager_def Let_def case_prod_beta
        create_escrow_offer_def log_escrow_action_def timedelta_hours_def
        create_consent_vc_id demo_escrow_def)
  have i: "tx_escrow_id demo_transaction = ''escrow_e1''" "(400000::int) > expires_at demo_escrow"
    by (simp_all add: demo_transaction_def demo_escrow_def)
  let ?p' = "fst (complete_data_delivery demo_accepted ''tx_t1'' 5 ''a3'' ''a4'' 400000)"
  note th = complete_data_delivery_failure [OF f]
  have u: "transactions ?p' = transactions demo_accepted"
    "audit_manager ?p' = audit_manager demo_accepted"
    using th by blast+
  have "map_of (transactions demo_accepted) ''tx_t1'' = Some demo_transaction
      \<and> map_of (active_escrows (escrow_manager demo_accepted)) (tx_escrow_id demo_transaction)
          = Some demo_escrow
    \<longrightarrow> map_of (active_escrows (escrow_manager ?p')) (tx_escrow_id demo_transaction)
          = Some (demo_escrow\<lparr>status :=
                     (if 400000 > expires_at demo_escrow then EXPIRED else LOCKED),
                   xrpl_sequence := Some 5\<rparr>)"
    using th by blast
  with t e i have r: "map_of (active_escrows (escrow_manager ?p')) ''escrow_e1''
      = Some (demo_escrow\<lparr>status := EXPIRED, xrpl_sequence := Some 5\<rparr>)"
    by simp
  from f t e u r show ?thesis by (intro conjI)
qed

text \<open>
  Claim C7 (when the lock or the fulfil step fails, the transaction's status, the
  escrow's state and the audit log are left as they were, and an audit event describes
  the failure). As stated it fails: delivery confirmed after the expiry of the escrow
  fails, appends no audit event, and leaves the escrow, which was \<open>CREATED\<close>, in state
  \<open>EXPIRED\<close>.
\<close>

theorem complete_data_delivery_expired_counterexample:
  "isl (snd (complete_data_delivery demo_accepted ''tx_t1'' 5 ''a3'' ''a4'' 400000))
   \<and> escrow_state (escrow_manager demo_accepted) ''escrow_e1'' = Some CREATED
   \<and> escrow_state (escrow_manager
        (fst (complete_data_delivery demo_accepted ''tx_t1'' 5 ''a3'' ''a4'' 400000)))
        ''escrow_e1'' = Some EXPIRED
   \<and> audit_events (audit_manager
        (fst (complete_data_delivery demo_accepted ''tx_t1'' 5 ''a3'' ''a4'' 400000)))
       = audit_events (audit_manager demo_accepted)"
  by (simp add: demo_accepted_def accept_offer_def demo_offered_def demo_env_def
      new_platform_def create_data_offer_def new_escrow_manager_def Let_def case_prod_beta
      create_escrow_offer_def complete_data_delivery_def lock_escrow_funds_def
      fulfill_escrow_def escrow_state_def log_escrow_action_def timedelta_hours_def)


end
